theory Spec2Isabelle
  imports Main
begin

section \<open>JavaScript values and string primitives used by App.tsx\<close>

text \<open>
  A value of type \<open>string | null\<close> (or \<open>string | undefined\<close>) is a \<open>string option\<close>.
  In the component state \<open>None\<close> is \<open>null\<close>; in the result of an array index and in the
  optional fields of the service's response it is \<open>undefined\<close>.

  \<open>falsy v\<close> is the JavaScript test \<open>!v\<close> on such a value: \<open>null\<close>, \<open>undefined\<close> and the
  empty string are falsy, every other string is truthy.

  \<open>tmpl v\<close> is what a template literal \<open>`${v}`\<close> renders for a string or \<open>undefined\<close>.
\<close>

definition falsy :: "string option \<Rightarrow> bool" where
  "falsy v = (case v of None \<Rightarrow> True | Some x \<Rightarrow> x = [])"

definition tmpl :: "string option \<Rightarrow> string" where
  "tmpl v = (case v of None \<Rightarrow> ''undefined'' | Some x \<Rightarrow> x)"

text \<open>\<open>str v\<close> reads a value that a truthiness test has shown to be a string.\<close>

definition str :: "string option \<Rightarrow> string" where
  "str v = (case v of None \<Rightarrow> [] | Some x \<Rightarrow> x)"

text \<open>
  \<open>js_split c s\<close> is \<open>s.split(c)\<close> for a one-character separator: the list of the
  segments between the separators, never empty (\<open>"".split(",")\<close> is \<open>[""]\<close>).
\<close>

fun js_split :: "char \<Rightarrow> string \<Rightarrow> string list" where
  "js_split c [] = [[]]"
| "js_split c (x # xs) =
     (if x = c then [] # js_split c xs
      else (case js_split c xs of
              [] \<Rightarrow> [[x]]
            | y # ys \<Rightarrow> (x # y) # ys))"

text \<open>\<open>js_index xs i\<close> is \<open>xs[i]\<close>: \<open>undefined\<close> out of range.\<close>

definition js_index :: "'a list \<Rightarrow> nat \<Rightarrow> 'a option" where
  "js_index xs i = (if i < length xs then Some (xs ! i) else None)"

text \<open>\<open>js_slice_0_m1 xs\<close> is \<open>xs.slice(0, -1)\<close>: all but the last element.\<close>

definition js_slice_0_m1 :: "'a list \<Rightarrow> 'a list" where
  "js_slice_0_m1 xs = butlast xs"

text \<open>\<open>js_join sep xs\<close> is \<open>xs.join(sep)\<close>; the empty array joins to the empty string.\<close>

fun js_join :: "string \<Rightarrow> string list \<Rightarrow> string" where
  "js_join sep [] = []"
| "js_join sep [x] = x"
| "js_join sep (x # y # ys) = x @ sep @ js_join sep (y # ys)"


section \<open>Component state and the state setters\<close>

text \<open>The six \<open>useState\<close> cells of \<open>App\<close> (lines 108 to 113).\<close>

record state =
  originalImage :: "string option"
  originalMimeType :: "string option"
  restoredImage :: "string option"
  isLoading :: bool
  error :: "string option"
  fileName :: "string option"

definition init :: state where
  "init = \<lparr> originalImage = None, originalMimeType = None, restoredImage = None,
            isLoading = False, error = None, fileName = None \<rparr>"

text \<open>
  A handler changes the state only by calling setters. A handler is modelled by the
  list of the setter calls it makes, in the order of the source; \<open>commit\<close> applies them
  in that order. React applies the calls a handler makes in one synchronous stretch
  as one batch, so the committed state is the one the next render shows.
\<close>

datatype setter =
    SetOriginalImage "string option"
  | SetOriginalMimeType "string option"
  | SetRestoredImage "string option"
  | SetIsLoading bool
  | SetError "string option"
  | SetFileName "string option"

fun apply_setter :: "setter \<Rightarrow> state \<Rightarrow> state" where
  "apply_setter (SetOriginalImage v) s = s\<lparr>originalImage := v\<rparr>"
| "apply_setter (SetOriginalMimeType v) s = s\<lparr>originalMimeType := v\<rparr>"
| "apply_setter (SetRestoredImage v) s = s\<lparr>restoredImage := v\<rparr>"
| "apply_setter (SetIsLoading b) s = s\<lparr>isLoading := b\<rparr>"
| "apply_setter (SetError v) s = s\<lparr>error := v\<rparr>"
| "apply_setter (SetFileName v) s = s\<lparr>fileName := v\<rparr>"

fun commit :: "setter list \<Rightarrow> state \<Rightarrow> state" where
  "commit [] s = s"
| "commit (u # us) s = commit us (apply_setter u s)"

text \<open>
  \<open>trace q s\<close> lists the state after each call of \<open>q\<close> in turn, as it would be were the
  calls applied one by one; its last element is \<open>commit q s\<close>.
\<close>

fun trace :: "setter list \<Rightarrow> state \<Rightarrow> state list" where
  "trace [] s = []"
| "trace (u # us) s = apply_setter u s # trace us (apply_setter u s)"


section \<open>Files and the file reader\<close>

text \<open>
  A selected \<open>File\<close>: its \<open>name\<close>, its \<open>type\<close> (the media type the browser reports,
  possibly empty) and what \<open>FileReader.readAsDataURL\<close> does with it: \<open>Some result\<close>
  when \<open>onload\<close> fires with \<open>reader.result\<close>, \<open>None\<close> when \<open>onerror\<close> fires.
\<close>

record File =
  name :: string
  ftype :: string
  reader :: "string option"

datatype read_error = ReaderError

definition fileToBase64 :: "File \<Rightarrow> read_error + (string option \<times> string)" where
  "fileToBase64 f =
     (case reader f of
        None \<Rightarrow> Inl ReaderError
      | Some result \<Rightarrow> Inr (js_index (js_split CHR '','' result) 1, ftype f))"


section \<open>The restoration service: request and response\<close>

definition RESTORE_PROMPT :: string where
  "RESTORE_PROMPT = ''Restore and colorize this photo in ultra high quality 4K resolution. Remove scratches, broken lines, and visual defects. Sharpen facial details, enhance textures, and brighten the image for better clarity. Apply natural and realistic colors, making the photo vivid, clear, and true to life while preserving its authenticity.''"

text \<open>
  The request and the response use the same shape of content: a list of parts, a part
  carrying inline data (payload and media type), text, or both. The fields the source
  reads through \<open>?.\<close> are optional.
\<close>

record blob =
  data :: "string option"
  mimeType :: "string option"

record part =
  inlineData :: "blob option"
  part_text :: "string option"

record content =
  parts :: "part list option"

record candidate =
  cand_content :: "content option"

record response =
  candidates :: "candidate list option"

datatype Modality = IMAGE | TEXT

record request =
  apiKey :: string
  model :: string
  contents :: content
  responseModalities :: "Modality list"

text \<open>A thrown value \<open>e\<close>, of which the handler reads \<open>e.message\<close>.\<close>

datatype exn = Error (message: "string option")

text \<open>How the awaited call \<open>ai.models.generateContent\<close> ends.\<close>

datatype outcome = Threw exn | Replied response

text \<open>The environment: \<open>process.env.API_KEY\<close>.\<close>

record env =
  API_KEY :: "string option"


section \<open>The handlers\<close>

subsection \<open>handleReset (lines 191 to 198)\<close>

definition handleReset :: "setter list" where
  "handleReset =
     [SetOriginalImage None, SetOriginalMimeType None, SetRestoredImage None,
      SetIsLoading False, SetError None, SetFileName None]"

subsection \<open>handleFileChange (lines 115 to 129)\<close>

text \<open>
  The part before the \<open>await\<close>: with a file selected the state is reset and the read of
  the file starts; with no file nothing happens.
\<close>

definition handleFileChange_begin :: "File option \<Rightarrow> setter list" where
  "handleFileChange_begin fo = (case fo of None \<Rightarrow> [] | Some f \<Rightarrow> handleReset)"

text \<open>The part after the \<open>await\<close>, when the read of \<open>f\<close> has ended.\<close>

definition handleFileChange_resume :: "File \<Rightarrow> setter list" where
  "handleFileChange_resume f =
     (case fileToBase64 f of
        Inr (base64, mime) \<Rightarrow>
          [SetOriginalImage (Some (''data:'' @ mime @ '';base64,'' @ tmpl base64)),
           SetOriginalMimeType (Some mime),
           SetFileName (Some (name f))]
      | Inl err \<Rightarrow> [SetError (Some ''Failed to read the image file.'')])"

subsection \<open>handleRestorePhoto (lines 131 to 178)\<close>

definition build_request :: "string \<Rightarrow> string \<Rightarrow> string \<Rightarrow> request" where
  "build_request key img mime =
     \<lparr> apiKey = key,
       model = ''gemini-2.5-flash-image-preview'',
       contents = \<lparr> parts = Some
         [\<lparr> inlineData = Some \<lparr> data = js_index (js_split CHR '','' img) 1,
                                 mimeType = Some mime \<rparr>,
            part_text = None \<rparr>,
          \<lparr> inlineData = None, part_text = Some RESTORE_PROMPT \<rparr>] \<rparr>,
       responseModalities = [IMAGE, TEXT] \<rparr>"

text \<open>
  The part before the \<open>await\<close>: the precondition check of line 132, then the three
  setter calls of lines 137 to 139 and the request. The result is the setter calls and
  the request sent, if any.
\<close>

definition handleRestorePhoto_begin :: "env \<Rightarrow> state \<Rightarrow> setter list \<times> request option" where
  "handleRestorePhoto_begin e s =
     (if falsy (originalImage s) \<or> falsy (originalMimeType s) \<or> falsy (API_KEY e)
      then ([SetError (Some ''Please upload an image and ensure your API key is configured.'')],
            None)
      else ([SetIsLoading True, SetError None, SetRestoredImage None],
            Some (build_request (str (API_KEY e)) (str (originalImage s))
                    (str (originalMimeType s)))))"

text \<open>\<open>response.candidates?.[0]?.content?.parts || []\<close> (line 159).\<close>

definition response_parts :: "response \<Rightarrow> part list" where
  "response_parts r =
     (case candidates r of
        None \<Rightarrow> []
      | Some cs \<Rightarrow>
          (case js_index cs 0 of
             None \<Rightarrow> []
           | Some c \<Rightarrow>
               (case cand_content c of
                  None \<Rightarrow> []
                | Some ct \<Rightarrow> (case parts ct of None \<Rightarrow> [] | Some ps \<Rightarrow> ps))))"

text \<open>
  The loop of lines 158 to 167: the setter calls made and the final \<open>foundImage\<close>.
  The \<open>break\<close> ends the scan at the first part with inline data.
\<close>

fun scan_parts :: "part list \<Rightarrow> setter list \<times> bool" where
  "scan_parts [] = ([], False)"
| "scan_parts (p # ps) =
     (case inlineData p of
        Some b \<Rightarrow>
          ([SetRestoredImage
              (Some (''data:'' @ tmpl (mimeType b) @ '';base64,'' @ tmpl (data b)))],
           True)
      | None \<Rightarrow> scan_parts ps)"

text \<open>
  The \<open>try\<close> block after the \<open>await\<close>: the setter calls made and the exception that
  leaves the block, if any.
\<close>

definition try_block :: "outcome \<Rightarrow> setter list \<times> exn option" where
  "try_block oc =
     (case oc of
        Threw e \<Rightarrow> ([], Some e)
      | Replied r \<Rightarrow>
          (case scan_parts (response_parts r) of
             (q, foundImage) \<Rightarrow>
               (if \<not> foundImage
                then (q, Some (Error (Some
                  ''The AI model did not return an image. It might have refused the request.'')))
                else (q, None))))"

text \<open>The \<open>catch\<close> block (line 173): \<open>e.message || "An error occurred ..."\<close>.\<close>

definition catch_block :: "exn \<Rightarrow> setter list" where
  "catch_block e =
     [SetError (Some (if falsy (message e)
                      then ''An error occurred during the restoration process.''
                      else str (message e)))]"

text \<open>The part after the \<open>await\<close>: \<open>try\<close>, \<open>catch\<close>, \<open>finally\<close>.\<close>

definition handleRestorePhoto_resume :: "outcome \<Rightarrow> setter list" where
  "handleRestorePhoto_resume oc =
     (case try_block oc of
        (q, thrown) \<Rightarrow>
          q @ (case thrown of None \<Rightarrow> [] | Some e \<Rightarrow> catch_block e) @ [SetIsLoading False])"

text \<open>
  The whole handler with the service ending as \<open>oc\<close> and no other handler running
  during the \<open>await\<close>: the final state and the request sent, if any.
\<close>

definition handleRestorePhoto :: "env \<Rightarrow> outcome \<Rightarrow> state \<Rightarrow> state \<times> request option" where
  "handleRestorePhoto e oc s =
     (case handleRestorePhoto_begin e s of
        (q, None) \<Rightarrow> (commit q s, None)
      | (q, Some req) \<Rightarrow> (commit (handleRestorePhoto_resume oc) (commit q s), Some req))"

subsection \<open>handleDownload (lines 180 to 189)\<close>

text \<open>The anchor element that is clicked: its \<open>href\<close> and its \<open>download\<close> attribute.\<close>

record link =
  href :: string
  download :: string

text \<open>\<open>fileName?.split('.').slice(0, -1).join('.') || 'photo'\<close> (line 184).\<close>

definition originalName :: "string option \<Rightarrow> string" where
  "originalName fn =
     (case fn of
        None \<Rightarrow> ''photo''
      | Some n \<Rightarrow>
          (let stem = js_join ''.'' (js_slice_0_m1 (js_split CHR ''.'' n))
           in if stem = [] then ''photo'' else stem))"

text \<open>The handler calls no setter; it returns the link clicked, if any.\<close>

definition handleDownload :: "state \<Rightarrow> setter list \<times> link option" where
  "handleDownload s =
     (if falsy (restoredImage s) then ([], None)
      else ([], Some \<lparr> href = str (restoredImage s),
                       download = originalName (fileName s) @ ''-restored.png'' \<rparr>))"


section \<open>The application as a transition system\<close>

text \<open>
  Handlers run one at a time, each up to its \<open>await\<close>; what was awaited ends later, as an
  event of its own, and the rest of the handler then runs on the state of that moment
  (the setters are not bound to the state of the render that started the handler).
  A world is the component state together with what is outside it: the files whose
  read has started and not ended, the number of requests awaiting their answer, every
  request sent so far, and every link clicked for download so far.
\<close>

record world =
  st :: state
  reading :: "File list"
  awaiting :: nat
  outbox :: "request list"
  saved :: "link list"

definition world0 :: world where
  "world0 = \<lparr> st = init, reading = [], awaiting = 0, outbox = [], saved = [] \<rparr>"

datatype event =
    SelectFile "File option"
  | FileRead File
  | ClickRestore
  | ServiceResult outcome
  | ClickDownload
  | ClickReset

definition opt_list :: "'a option \<Rightarrow> 'a list" where
  "opt_list v = (case v of None \<Rightarrow> [] | Some x \<Rightarrow> [x])"

text \<open>
  One event on the handlers as they are, with no regard to what the rendered page
  offers. \<open>None\<close>: the event cannot happen (no such read, no request awaiting).
  The handlers read the state of the last render, which is the current state.
\<close>

fun fire :: "env \<Rightarrow> event \<Rightarrow> world \<Rightarrow> world option" where
  "fire e (SelectFile fo) w =
     Some (w\<lparr> st := commit (handleFileChange_begin fo) (st w),
              reading := reading w @ opt_list fo \<rparr>)"
| "fire e (FileRead f) w =
     (if f \<in> set (reading w)
      then Some (w\<lparr> st := commit (handleFileChange_resume f) (st w),
                    reading := remove1 f (reading w) \<rparr>)
      else None)"
| "fire e ClickRestore w =
     (case handleRestorePhoto_begin e (st w) of
        (q, issued) \<Rightarrow>
          Some (w\<lparr> st := commit q (st w),
                   outbox := outbox w @ opt_list issued,
                   awaiting := awaiting w + length (opt_list issued) \<rparr>))"
| "fire e (ServiceResult oc) w =
     (if 0 < awaiting w
      then Some (w\<lparr> st := commit (handleRestorePhoto_resume oc) (st w),
                    awaiting := awaiting w - 1 \<rparr>)
      else None)"
| "fire e ClickDownload w =
     (case handleDownload (st w) of
        (q, clicked) \<Rightarrow>
          Some (w\<lparr> st := commit q (st w), saved := saved w @ opt_list clicked \<rparr>))"
| "fire e ClickReset w = Some (w\<lparr> st := commit handleReset (st w) \<rparr>)"


text \<open>
  What the rendered page offers (lines 222 to 259 and the \<open>FileUploader\<close> of lines 29
  to 61): the file input is rendered while \<open>originalImage\<close> is falsy and is disabled
  while \<open>isLoading\<close>; the three buttons are rendered while \<open>originalImage\<close> is truthy,
  Restore and Reset disabled while \<open>isLoading\<close>, Download disabled while
  \<open>!restoredImage || isLoading\<close>. The end of a read or of a request is not a user action.
\<close>

fun offered :: "event \<Rightarrow> state \<Rightarrow> bool" where
  "offered (SelectFile fo) s = (falsy (originalImage s) \<and> \<not> isLoading s)"
| "offered (FileRead f) s = True"
| "offered ClickRestore s = (\<not> falsy (originalImage s) \<and> \<not> isLoading s)"
| "offered (ServiceResult oc) s = True"
| "offered ClickDownload s =
     (\<not> falsy (originalImage s) \<and> \<not> (falsy (restoredImage s) \<or> isLoading s))"
| "offered ClickReset s = (\<not> falsy (originalImage s) \<and> \<not> isLoading s)"

definition ui_fire :: "env \<Rightarrow> event \<Rightarrow> world \<Rightarrow> world option" where
  "ui_fire e ev w = (if offered ev (st w) then fire e ev w else None)"

fun ui_run :: "env \<Rightarrow> event list \<Rightarrow> world \<Rightarrow> world option" where
  "ui_run e [] w = Some w"
| "ui_run e (ev # evs) w =
     (case ui_fire e ev w of None \<Rightarrow> None | Some w' \<Rightarrow> ui_run e evs w')"





section \<open>What the rendered page maintains\<close>

text \<open>
  The property every world reached through the rendered page has: at most one request
  awaits its outcome, one does exactly while \<open>isLoading\<close>, and while \<open>isLoading\<close> or a
  restored image is held, an original image is held.
\<close>

definition ui_inv :: "world \<Rightarrow> bool" where
  "ui_inv w =
     (awaiting w = (if isLoading (st w) then 1 else 0) \<and>
      (if isLoading (st w) \<or> restoredImage (st w) \<noteq> None
       then \<not> falsy (originalImage (st w)) else True))"



section \<open>Example values\<close>

text \<open>
  The file \<open>grandma.jpg\<close> with payload \<open>QUJD\<close>, a file whose read fails, a file for
  which the browser reports no media type, the environment
  with and without the credential, parts and replies of the service, and the states
  after the upload, after a failed restoration and after a successful one.
\<close>

definition grandma :: File where
  "grandma = \<lparr> name = ''grandma.jpg'', ftype = ''image/jpeg'',
               reader = Some ''data:image/jpeg;base64,QUJD'' \<rparr>"

definition unreadable :: File where
  "unreadable = \<lparr> name = ''torn.png'', ftype = ''image/png'', reader = None \<rparr>"


definition configured :: env where
  "configured = \<lparr> API_KEY = Some ''k'' \<rparr>"

definition unconfigured :: env where
  "unconfigured = \<lparr> API_KEY = None \<rparr>"

definition reply :: "part list \<Rightarrow> response" where
  "reply ps = \<lparr> candidates = Some [\<lparr> cand_content = Some \<lparr> parts = Some ps \<rparr> \<rparr>] \<rparr>"

definition text_part :: part where
  "text_part = \<lparr> inlineData = None, part_text = Some ''Here is your photo.'' \<rparr>"



definition ready :: state where
  "ready = \<lparr> originalImage = Some ''data:image/jpeg;base64,QUJD'',
             originalMimeType = Some ''image/jpeg'', restoredImage = None,
             isLoading = False, error = None, fileName = Some ''grandma.jpg'' \<rparr>"

definition failed :: state where
  "failed = ready\<lparr> error := Some ''network timeout'' \<rparr>"

definition restored :: state where
  "restored = ready\<lparr> restoredImage := Some ''data:image/png;base64,WFla'' \<rparr>"

text \<open>The request sent for \<open>grandma.jpg\<close>, and a service call that throws.\<close>

definition sent :: request where
  "sent = build_request ''k'' ''data:image/jpeg;base64,QUJD'' ''image/jpeg''"

definition timeout :: outcome where
  "timeout = Threw (Error (Some ''network timeout''))"


section \<open>Facts about the string primitives\<close>

lemma js_split_not_Nil: "js_split c xs \<noteq> []"
  by (induction xs) (auto split: list.splits)

lemma js_split_no_sep: "c \<notin> set xs \<Longrightarrow> js_split c xs = [xs]"
  by (induction xs) auto


lemma js_split_last: "c \<notin> set b \<Longrightarrow> js_split c (a @ c # b) = js_split c a @ [b]"
proof (induction a)
  case Nil
  then show ?case by (simp add: js_split_no_sep)
next
  case (Cons x a)
  then show ?case
    by (cases "js_split c a") (auto simp: js_split_not_Nil)
qed


lemma js_join_split: "js_join [c] (js_split c xs) = xs"
proof (induction xs)
  case Nil
  show ?case by simp
next
  case (Cons x xs)
  obtain y ys where sp: "js_split c xs = y # ys"
    using js_split_not_Nil [of c xs] by (cases "js_split c xs") auto
  show ?case
  proof (cases "x = c")
    case True
    with Cons sp show ?thesis by simp
  next
    case False
    with Cons sp show ?thesis by (cases ys) auto
  qed
qed

lemma originalName_split:
  assumes "CHR ''.'' \<notin> set ext"
  shows "originalName (Some (stem @ ''.'' @ ext)) = (if stem = [] then ''photo'' else stem)"
proof -
  have "js_split CHR ''.'' (stem @ ''.'' @ ext) = js_split CHR ''.'' stem @ [ext]"
    using assms js_split_last [of "CHR ''.''" ext stem] by simp
  then have "js_join ''.'' (js_slice_0_m1 (js_split CHR ''.'' (stem @ ''.'' @ ext))) = stem"
    using js_join_split [of "CHR ''.''" stem] by (simp add: js_slice_0_m1_def)
  then show ?thesis
    by (simp add: originalName_def)
qed

lemma originalName_dotless:
  assumes "CHR ''.'' \<notin> set n"
  shows "originalName (Some n) = ''photo''"
  using assms by (simp add: originalName_def js_split_no_sep js_slice_0_m1_def)


section \<open>Facts about the handlers and the rendered page\<close>

lemma scan_parts_none:
  "\<forall>p\<in>set ps. inlineData p = None \<Longrightarrow> scan_parts ps = ([], False)"
  by (induction ps) auto


lemma commit_handleReset: "commit handleReset s = init"
  by (simp add: handleReset_def init_def)

lemma scan_parts_cases:
  "scan_parts ps = ([], False) \<or> (\<exists>u. scan_parts ps = ([SetRestoredImage (Some u)], True))"
  by (induction ps) (auto split: option.splits)

lemma resume_last: "last (handleRestorePhoto_resume oc) = SetIsLoading False"
  by (simp add: handleRestorePhoto_resume_def split: prod.splits)

lemma resume_forms:
  "(\<exists>x. handleRestorePhoto_resume oc = [SetError x, SetIsLoading False]) \<or>
   (\<exists>u. handleRestorePhoto_resume oc = [SetRestoredImage (Some u), SetIsLoading False])"
proof (cases oc)
  case (Threw ex)
  then show ?thesis
    by (simp add: handleRestorePhoto_resume_def try_block_def catch_block_def)
next
  case (Replied r)
  with scan_parts_cases [of "response_parts r"] show ?thesis
    by (auto simp: handleRestorePhoto_resume_def try_block_def catch_block_def)
qed

lemma resume_clears_isLoading: "\<not> isLoading (commit (handleRestorePhoto_resume oc) t)"
  using resume_forms [of oc] by auto

lemma resume_keeps_originalImage:
  "originalImage (commit (handleRestorePhoto_resume oc) t) = originalImage t"
  using resume_forms [of oc] by auto

lemma file_resume_isLoading:
  "isLoading (commit (handleFileChange_resume f) t) = isLoading t"
  by (simp add: handleFileChange_resume_def split: sum.splits prod.splits)

lemma file_resume_restoredImage:
  "restoredImage (commit (handleFileChange_resume f) t) = restoredImage t"
  by (simp add: handleFileChange_resume_def split: sum.splits prod.splits)

lemma file_resume_originalImage:
  "\<not> falsy (originalImage t) \<Longrightarrow> \<not> falsy (originalImage (commit (handleFileChange_resume f) t))"
  by (simp add: handleFileChange_resume_def falsy_def split: sum.splits prod.splits)

lemma ui_inv_fire:
  assumes "ui_inv w" and "ui_fire e ev w = Some w'"
  shows "ui_inv w'"
proof (cases ev)
  case (SelectFile fo)
  with assms show ?thesis
    by (cases fo)
      (auto simp: ui_fire_def ui_inv_def handleFileChange_begin_def commit_handleReset init_def
        split: if_splits)
next
  case (FileRead f)
  with assms show ?thesis
    by (auto simp: ui_fire_def ui_inv_def file_resume_isLoading file_resume_restoredImage
        file_resume_originalImage split: if_splits)
next
  case ClickRestore
  with assms show ?thesis
    by (auto simp: ui_fire_def ui_inv_def handleRestorePhoto_begin_def opt_list_def
        split: if_splits)
next
  case (ServiceResult oc)
  with assms show ?thesis
    by (auto simp: ui_fire_def ui_inv_def resume_clears_isLoading resume_keeps_originalImage
        split: if_splits)
next
  case ClickDownload
  with assms show ?thesis
    by (auto simp: ui_fire_def ui_inv_def handleDownload_def opt_list_def split: if_splits)
next
  case ClickReset
  with assms show ?thesis
    by (auto simp: ui_fire_def ui_inv_def commit_handleReset init_def split: if_splits)
qed

lemma ui_inv_run:
  "ui_inv w \<Longrightarrow> ui_run e evs w = Some w' \<Longrightarrow> ui_inv w'"
proof (induction evs arbitrary: w)
  case Nil
  then show ?case by simp
next
  case (Cons ev evs)
  then show ?case
    by (auto split: option.splits dest: ui_inv_fire)
qed

lemma ui_inv_world0: "ui_inv world0"
  by (simp add: ui_inv_def world0_def init_def)








lemma begin_passes:
  assumes "\<not> falsy (originalImage s)" and "\<not> falsy (originalMimeType s)"
    and "\<not> falsy (API_KEY e)"
  shows "fst (handleRestorePhoto_begin e s) = [SetIsLoading True, SetError None, SetRestoredImage None]"
  using assms by (simp add: handleRestorePhoto_begin_def)







section \<open>The example run\<close>

lemma ready_passes:
  "\<not> falsy (originalImage ready)" "\<not> falsy (originalMimeType ready)"
  "\<not> falsy (API_KEY configured)"
  by (simp_all add: ready_def configured_def falsy_def)

lemma failed_passes:
  "\<not> falsy (originalImage failed)" "\<not> falsy (originalMimeType failed)"
  by (simp_all add: failed_def ready_def falsy_def)

lemma ui_select:
  "ui_fire configured (SelectFile (Some grandma)) world0 = Some (world0\<lparr>reading := [grandma]\<rparr>)"
  by (simp add: ui_fire_def world0_def init_def handleFileChange_begin_def handleReset_def
      opt_list_def falsy_def)

lemma ui_read:
  "ui_fire configured (FileRead grandma) (world0\<lparr>reading := [grandma]\<rparr>) =
     Some (world0\<lparr>st := ready\<rparr>)"
  by (simp add: ui_fire_def world0_def init_def grandma_def handleFileChange_resume_def
      fileToBase64_def js_index_def tmpl_def ready_def)

lemma ui_restore_click:
  "ui_fire configured ClickRestore (world0\<lparr>st := ready\<rparr>) =
     Some (world0\<lparr>st := ready\<lparr>isLoading := True\<rparr>, awaiting := 1, outbox := [sent]\<rparr>)"
  by (simp add: ui_fire_def world0_def handleRestorePhoto_begin_def opt_list_def falsy_def
      str_def ready_def configured_def sent_def)

lemma ui_timeout:
  "ui_fire configured (ServiceResult timeout)
     (world0\<lparr>st := ready\<lparr>isLoading := True\<rparr>, awaiting := 1, outbox := [sent]\<rparr>) =
     Some (world0\<lparr>st := failed, outbox := [sent]\<rparr>)"
  by (simp add: ui_fire_def world0_def timeout_def handleRestorePhoto_resume_def
      try_block_def catch_block_def falsy_def str_def failed_def ready_def)


lemma ui_dispatched:
  "ui_run configured [SelectFile (Some grandma), FileRead grandma, ClickRestore] world0 =
     Some (world0\<lparr>st := ready\<lparr>isLoading := True\<rparr>, awaiting := 1, outbox := [sent]\<rparr>)"
  by (simp only: ui_run.simps ui_select ui_read ui_restore_click option.case)

lemma ui_timed_out:
  "ui_run configured [SelectFile (Some grandma), FileRead grandma, ClickRestore,
       ServiceResult timeout] world0 =
     Some (world0\<lparr>st := failed, outbox := [sent]\<rparr>)"
  by (simp only: ui_run.simps ui_select ui_read ui_restore_click ui_timeout option.case)





section \<open>Download\<close>

text \<open>
  Claim C10. In every state with a restored image (a truthy \<open>restoredImage\<close>) and a
  file name that is known and contains no \<open>'.'\<close>, the download handler suggests the file
  name \<open>photo-restored.png\<close>: splitting a name without a dot gives one segment,
  \<open>slice(0, -1)\<close> drops it, the join is the empty string, and \<open>|| 'photo'\<close> applies
  although a name is known.
\<close>

theorem download_dotless_name_falls_back:
  assumes "\<not> falsy (restoredImage s)" and "fileName s = Some n" and "CHR ''.'' \<notin> set n"
  shows "handleDownload s =
           ([], Some \<lparr> href = str (restoredImage s), download = ''photo-restored.png'' \<rparr>)"
  using assms by (simp add: handleDownload_def originalName_dotless)

theorem download_dotless_name_falls_back_witness:
  "\<not> falsy (restoredImage (restored\<lparr>fileName := Some ''grandma''\<rparr>)) \<and>
   CHR ''.'' \<notin> set ''grandma'' \<and>
   handleDownload (restored\<lparr>fileName := Some ''grandma''\<rparr>) =
     ([], Some \<lparr> href = ''data:image/png;base64,WFla'', download = ''photo-restored.png'' \<rparr>)"
  using download_dotless_name_falls_back [of "restored\<lparr>fileName := Some ''grandma''\<rparr>" "''grandma''"]
  by (simp add: restored_def ready_def falsy_def str_def)

text \<open>
  Claim C9, as amended. The download handler calls no setter, so it leaves every state
  field as it is. With no restored image it clicks no link. With a restored image it
  clicks a link to that image whose suggested file name is \<open>base-restored.png\<close>, where
  \<open>base\<close> is what precedes the last \<open>'.'\<close> of the file name when that is not empty, and
  \<open>photo\<close> otherwise: when no file name is known, when the name has no \<open>'.'\<close>, and when
  nothing precedes its only \<open>'.'\<close>. Every name is of one of these forms: without a
  \<open>'.'\<close>, or \<open>stem.ext\<close> with \<open>ext\<close> without a \<open>'.'\<close>. (\<open>grandma.jpg\<close> gives
  \<open>grandma-restored.png\<close>, see the instance below.)
\<close>

theorem download_filename:
  "commit (fst (handleDownload s)) s = s \<and>
   (falsy (restoredImage s) \<longrightarrow> snd (handleDownload s) = None) \<and>
   (\<not> falsy (restoredImage s) \<longrightarrow>
      (fileName s = None \<longrightarrow>
         snd (handleDownload s) =
           Some \<lparr> href = str (restoredImage s), download = ''photo-restored.png'' \<rparr>) \<and>
      (fileName s = Some n \<and> CHR ''.'' \<notin> set n \<longrightarrow>
         snd (handleDownload s) =
           Some \<lparr> href = str (restoredImage s), download = ''photo-restored.png'' \<rparr>) \<and>
      (fileName s = Some (stem @ ''.'' @ ext) \<and> CHR ''.'' \<notin> set ext \<longrightarrow>
         snd (handleDownload s) =
           Some \<lparr> href = str (restoredImage s),
                  download = (if stem = [] then ''photo'' else stem) @ ''-restored.png'' \<rparr>))"
proof -
  have unchanged: "commit (fst (handleDownload s)) s = s"
    by (simp add: handleDownload_def)
  have absent: "falsy (restoredImage s) \<longrightarrow> snd (handleDownload s) = None"
    by (simp add: handleDownload_def)
  have unnamed: "\<not> falsy (restoredImage s) \<longrightarrow> fileName s = None \<longrightarrow>
      snd (handleDownload s) =
        Some \<lparr> href = str (restoredImage s), download = ''photo-restored.png'' \<rparr>"
    by (simp add: handleDownload_def originalName_def)
  have dotless: "\<not> falsy (restoredImage s) \<longrightarrow> fileName s = Some n \<and> CHR ''.'' \<notin> set n \<longrightarrow>
      snd (handleDownload s) =
        Some \<lparr> href = str (restoredImage s), download = ''photo-restored.png'' \<rparr>"
    by (simp add: handleDownload_def originalName_dotless)
  have named: "\<not> falsy (restoredImage s) \<longrightarrow>
      fileName s = Some (stem @ ''.'' @ ext) \<and> CHR ''.'' \<notin> set ext \<longrightarrow>
      snd (handleDownload s) =
        Some \<lparr> href = str (restoredImage s),
               download = (if stem = [] then ''photo'' else stem) @ ''-restored.png'' \<rparr>"
    using originalName_split [of ext stem] by (simp add: handleDownload_def)
  from unchanged absent unnamed dotless named show ?thesis by blast
qed

theorem download_filename_witness:
  "snd (handleDownload init) = None \<and>
   \<not> falsy (restoredImage restored) \<and>
   fileName restored = Some (''grandma'' @ ''.'' @ ''jpg'') \<and>
   snd (handleDownload restored) =
     Some \<lparr> href = ''data:image/png;base64,WFla'', download = ''grandma-restored.png'' \<rparr> \<and>
   snd (handleDownload (restored\<lparr>fileName := None\<rparr>)) =
     Some \<lparr> href = ''data:image/png;base64,WFla'', download = ''photo-restored.png'' \<rparr> \<and>
   snd (handleDownload (restored\<lparr>fileName := Some ''portrait''\<rparr>)) =
     Some \<lparr> href = ''data:image/png;base64,WFla'', download = ''photo-restored.png'' \<rparr> \<and>
   snd (handleDownload (restored\<lparr>fileName := Some ('''' @ ''.'' @ ''jpg'')\<rparr>)) =
     Some \<lparr> href = ''data:image/png;base64,WFla'', download = ''photo-restored.png'' \<rparr>"
  using download_filename [of init] download_filename [of restored _ "''grandma''" "''jpg''"]
    download_filename [of "restored\<lparr>fileName := None\<rparr>"]
    download_filename [of "restored\<lparr>fileName := Some ''portrait''\<rparr>" "''portrait''"]
    download_filename [of "restored\<lparr>fileName := Some ('''' @ ''.'' @ ''jpg'')\<rparr>" _ "''''" "''jpg''"]
  by (simp add: restored_def ready_def init_def falsy_def str_def)

text \<open>
  The fallback is not kept to the case of an unknown name: for the known names
  \<open>.bashrc\<close> and \<open>scan\<close> the suggested file name is \<open>photo-restored.png\<close>.
\<close>

theorem download_known_name_falls_back:
  "snd (handleDownload (restored\<lparr>fileName := Some ''.bashrc''\<rparr>)) =
     Some \<lparr> href = ''data:image/png;base64,WFla'', download = ''photo-restored.png'' \<rparr> \<and>
   snd (handleDownload (restored\<lparr>fileName := Some ''scan''\<rparr>)) =
     Some \<lparr> href = ''data:image/png;base64,WFla'', download = ''photo-restored.png'' \<rparr>"
  by (simp add: handleDownload_def originalName_def js_slice_0_m1_def restored_def ready_def
      falsy_def str_def)


section \<open>Upload\<close>

text \<open>
  Claim C8. For a selected file \<open>f\<close> and any state \<open>s\<close>, the part of the handler before
  the read resets the state to the initial one (\<open>restoredImage\<close>, \<open>error\<close> and
  \<open>isLoading\<close> cleared, \<open>originalImage\<close> and \<open>fileName\<close> null). When the read
  succeeds, \<open>originalImage\<close> becomes the data URL of the file, \<open>originalMimeType\<close> its
  media type and \<open>fileName\<close> its name, the rest staying cleared. When the read fails,
  \<open>error\<close> becomes \<open>Failed to read the image file.\<close> and every other field stays as
  in the initial state, \<open>originalImage\<close> null.
\<close>

theorem upload_resets_then_loads:
  "commit (handleFileChange_begin (Some f)) s = init \<and>
   (\<forall>b m. fileToBase64 f = Inr (b, m) \<longrightarrow>
      commit (handleFileChange_resume f) (commit (handleFileChange_begin (Some f)) s) =
        \<lparr> originalImage = Some (''data:'' @ m @ '';base64,'' @ tmpl b),
          originalMimeType = Some m, restoredImage = None, isLoading = False,
          error = None, fileName = Some (name f) \<rparr>) \<and>
   (\<forall>err. fileToBase64 f = Inl err \<longrightarrow>
      commit (handleFileChange_resume f) (commit (handleFileChange_begin (Some f)) s) =
        \<lparr> originalImage = None, originalMimeType = None, restoredImage = None,
          isLoading = False, error = Some ''Failed to read the image file.'',
          fileName = None \<rparr>)"
  by (simp add: handleFileChange_begin_def commit_handleReset handleFileChange_resume_def
      init_def)

theorem upload_resets_then_loads_witness:
  "fileToBase64 grandma = Inr (Some ''QUJD'', ''image/jpeg'') \<and>
   commit (handleFileChange_resume grandma) (commit (handleFileChange_begin (Some grandma)) failed)
     = ready \<and>
   fileToBase64 unreadable = Inl ReaderError \<and>
   commit (handleFileChange_resume unreadable)
     (commit (handleFileChange_begin (Some unreadable)) restored)
     = init\<lparr>error := Some ''Failed to read the image file.''\<rparr>"
proof -
  have g: "fileToBase64 grandma = Inr (Some ''QUJD'', ''image/jpeg'')"
    by (simp add: grandma_def fileToBase64_def js_index_def)
  have u: "fileToBase64 unreadable = Inl ReaderError"
    by (simp add: unreadable_def fileToBase64_def)
  from g upload_resets_then_loads [of grandma failed]
  have "commit (handleFileChange_resume grandma)
          (commit (handleFileChange_begin (Some grandma)) failed) =
        \<lparr> originalImage = Some (''data:'' @ ''image/jpeg'' @ '';base64,'' @ tmpl (Some ''QUJD'')),
          originalMimeType = Some ''image/jpeg'', restoredImage = None, isLoading = False,
          error = None, fileName = Some (name grandma) \<rparr>"
    by blast
  then have a: "commit (handleFileChange_resume grandma)
          (commit (handleFileChange_begin (Some grandma)) failed) = ready"
    by (simp add: ready_def tmpl_def grandma_def)
  from u upload_resets_then_loads [of unreadable restored]
  have "commit (handleFileChange_resume unreadable)
          (commit (handleFileChange_begin (Some unreadable)) restored) =
        \<lparr> originalImage = None, originalMimeType = None, restoredImage = None,
          isLoading = False, error = Some ''Failed to read the image file.'', fileName = None \<rparr>"
    by blast
  then have b: "commit (handleFileChange_resume unreadable)
          (commit (handleFileChange_begin (Some unreadable)) restored) =
        init\<lparr>error := Some ''Failed to read the image file.''\<rparr>"
    by (simp add: init_def)
  from g a u b show ?thesis by blast
qed


section \<open>Restoration: the precondition\<close>

text \<open>
  Claim C3. In every world whose state has no original image, or whose environment has
  no credential (\<open>API_KEY\<close> undefined or empty), the part of the restore handler before
  the \<open>await\<close> calls only \<open>setError\<close> and sends no request: after the click the world is
  the one before with the \<open>error\<close> field set to the message, so no request has joined
  the requests sent, none awaits an outcome, and no other state field has changed.
\<close>

theorem restore_precondition_failure:
  assumes "originalImage (st w) = None \<or> falsy (API_KEY e)"
  shows "handleRestorePhoto_begin e (st w) =
           ([SetError (Some ''Please upload an image and ensure your API key is configured.'')],
            None)
       \<and> fire e ClickRestore w =
           Some (w\<lparr>st := (st w)\<lparr>error :=
             Some ''Please upload an image and ensure your API key is configured.''\<rparr>\<rparr>)"
proof -
  from assms have b: "handleRestorePhoto_begin e (st w) =
      ([SetError (Some ''Please upload an image and ensure your API key is configured.'')], None)"
    by (auto simp: handleRestorePhoto_begin_def falsy_def)
  then have f: "fire e ClickRestore w =
      Some (w\<lparr>st := (st w)\<lparr>error :=
        Some ''Please upload an image and ensure your API key is configured.''\<rparr>\<rparr>)"
    by (simp add: opt_list_def)
  from b f show ?thesis by blast
qed

theorem restore_precondition_failure_witness:
  "falsy (API_KEY unconfigured) \<and>
   fire unconfigured ClickRestore (world0\<lparr>st := ready\<rparr>) =
     Some (world0\<lparr>st := ready\<lparr>error :=
        Some ''Please upload an image and ensure your API key is configured.''\<rparr>\<rparr>) \<and>
   originalImage (st world0) = None \<and>
   fire configured ClickRestore world0 =
     Some (world0\<lparr>st := init\<lparr>error :=
        Some ''Please upload an image and ensure your API key is configured.''\<rparr>\<rparr>)"
proof -
  have k: "falsy (API_KEY unconfigured)"
    by (simp add: unconfigured_def falsy_def)
  have o: "originalImage (st world0) = None"
    by (simp add: world0_def init_def)
  from k o restore_precondition_failure [of "world0\<lparr>st := ready\<rparr>" unconfigured]
    restore_precondition_failure [of world0 configured]
  show ?thesis
    by (simp add: world0_def opt_list_def)
qed


section \<open>Restoration: the response\<close>

text \<open>
  Claim C1. Inline data is the only form in which a part carries an image. For every
  response none of whose parts carries inline data, the part of the restore handler
  after the \<open>await\<close> leaves any state as it is but for \<open>error\<close>, set to the non-empty
  message that the model returned no image and may have refused, and \<open>isLoading\<close>,
  cleared; it does not touch \<open>restoredImage\<close>. Run as a whole from a state that passes
  the precondition, the handler ends with \<open>restoredImage\<close> null, that message in
  \<open>error\<close> and \<open>isLoading\<close> cleared.
\<close>

theorem no_image_part_fails:
  assumes "\<forall>p\<in>set (response_parts r). inlineData p = None"
  shows "commit (handleRestorePhoto_resume (Replied r)) t =
           t\<lparr>error := Some
                ''The AI model did not return an image. It might have refused the request.'',
             isLoading := False\<rparr>
       \<and> (\<not> falsy (originalImage s) \<and> \<not> falsy (originalMimeType s) \<and> \<not> falsy (API_KEY e) \<longrightarrow>
            fst (handleRestorePhoto e (Replied r) s) =
              s\<lparr>restoredImage := None,
                error := Some
                  ''The AI model did not return an image. It might have refused the request.'',
                isLoading := False\<rparr>)"
proof -
  have q: "handleRestorePhoto_resume (Replied r) =
      [SetError (Some
         ''The AI model did not return an image. It might have refused the request.''),
       SetIsLoading False]"
    using scan_parts_none [OF assms]
    by (simp add: handleRestorePhoto_resume_def try_block_def catch_block_def falsy_def str_def)
  have a: "commit (handleRestorePhoto_resume (Replied r)) t =
           t\<lparr>error := Some
                ''The AI model did not return an image. It might have refused the request.'',
             isLoading := False\<rparr>"
    by (simp add: q)
  have c: "\<not> falsy (originalImage s) \<and> \<not> falsy (originalMimeType s) \<and> \<not> falsy (API_KEY e) \<longrightarrow>
            fst (handleRestorePhoto e (Replied r) s) =
              s\<lparr>restoredImage := None,
                error := Some
                  ''The AI model did not return an image. It might have refused the request.'',
                isLoading := False\<rparr>"
    by (simp add: handleRestorePhoto_def handleRestorePhoto_begin_def q)
  from a c show ?thesis by blast
qed

theorem no_image_part_fails_witness:
  "response_parts (reply [text_part]) = [text_part] \<and>
   inlineData text_part = None \<and>
   \<not> falsy (originalImage ready) \<and> \<not> falsy (originalMimeType ready) \<and>
   \<not> falsy (API_KEY configured) \<and>
   fst (handleRestorePhoto configured (Replied (reply [text_part])) ready) =
     ready\<lparr>error := Some
       ''The AI model did not return an image. It might have refused the request.''\<rparr>"
proof -
  have a: "response_parts (reply [text_part]) = [text_part]"
    by (simp add: reply_def response_parts_def js_index_def)
  have b: "inlineData text_part = None"
    by (simp add: text_part_def)
  from a b have h: "\<forall>p\<in>set (response_parts (reply [text_part])). inlineData p = None"
    by simp
  from a b no_image_part_fails [OF h, of _ ready configured]
  show ?thesis
    by (simp add: ready_def configured_def falsy_def)
qed




section \<open>Upload, then restoration\<close>





section \<open>Restoration: the loading flag\<close>

text \<open>
  Claim C4. From a state that passes the precondition, the part of the restore handler
  before the \<open>await\<close> commits a state with \<open>isLoading\<close> true. The part after the \<open>await\<close>
  ends with \<open>setIsLoading(false)\<close> whatever the outcome (a reply with an image, a reply
  without one, which throws inside the \<open>try\<close>, or a service call that throws) and
  whatever the state, so it commits a state with \<open>isLoading\<close> false. In every world
  reached from the initial one through the rendered page, \<open>isLoading\<close> is true exactly
  while a request awaits its outcome: true from the dispatch to the outcome, false
  otherwise.
\<close>

theorem isLoading_lifecycle:
  "(\<not> falsy (originalImage s) \<and> \<not> falsy (originalMimeType s) \<and> \<not> falsy (API_KEY e) \<longrightarrow>
      isLoading (commit (fst (handleRestorePhoto_begin e s)) s)) \<and>
   last (handleRestorePhoto_resume oc) = SetIsLoading False \<and>
   \<not> isLoading (commit (handleRestorePhoto_resume oc) t) \<and>
   (ui_run e evs world0 = Some w \<longrightarrow> isLoading (st w) = (0 < awaiting w))"
proof -
  have a: "\<not> falsy (originalImage s) \<and> \<not> falsy (originalMimeType s) \<and> \<not> falsy (API_KEY e) \<longrightarrow>
      isLoading (commit (fst (handleRestorePhoto_begin e s)) s)"
    by (simp add: begin_passes)
  have d: "ui_run e evs world0 = Some w \<longrightarrow> isLoading (st w) = (0 < awaiting w)"
  proof
    assume "ui_run e evs world0 = Some w"
    with ui_inv_world0 have "ui_inv w" by (rule ui_inv_run)
    then show "isLoading (st w) = (0 < awaiting w)"
      by (simp add: ui_inv_def split: if_splits)
  qed
  from a resume_last [of oc] resume_clears_isLoading [of oc t] d show ?thesis by blast
qed

theorem isLoading_lifecycle_witness:
  "\<not> falsy (originalImage ready) \<and> \<not> falsy (originalMimeType ready) \<and>
   \<not> falsy (API_KEY configured) \<and>
   isLoading (commit (fst (handleRestorePhoto_begin configured ready)) ready) \<and>
   \<not> isLoading (commit (handleRestorePhoto_resume timeout) (ready\<lparr>isLoading := True\<rparr>)) \<and>
   ui_run configured [SelectFile (Some grandma), FileRead grandma, ClickRestore] world0 =
     Some (world0\<lparr>st := ready\<lparr>isLoading := True\<rparr>, awaiting := 1, outbox := [sent]\<rparr>) \<and>
   isLoading (st (world0\<lparr>st := ready\<lparr>isLoading := True\<rparr>, awaiting := 1, outbox := [sent]\<rparr>)) =
     (0 < awaiting (world0\<lparr>st := ready\<lparr>isLoading := True\<rparr>, awaiting := 1, outbox := [sent]\<rparr>)) \<and>
   ui_run configured [SelectFile (Some grandma), FileRead grandma, ClickRestore,
       ServiceResult timeout] world0 =
     Some (world0\<lparr>st := failed, outbox := [sent]\<rparr>) \<and>
   isLoading (st (world0\<lparr>st := failed, outbox := [sent]\<rparr>)) =
     (0 < awaiting (world0\<lparr>st := failed, outbox := [sent]\<rparr>))"
  using ready_passes ui_dispatched ui_timed_out
    isLoading_lifecycle [of ready configured timeout "ready\<lparr>isLoading := True\<rparr>"
      "[SelectFile (Some grandma), FileRead grandma, ClickRestore]"
      "world0\<lparr>st := ready\<lparr>isLoading := True\<rparr>, awaiting := 1, outbox := [sent]\<rparr>"]
    isLoading_lifecycle [of ready configured timeout "ready\<lparr>isLoading := True\<rparr>"
      "[SelectFile (Some grandma), FileRead grandma, ClickRestore, ServiceResult timeout]"
      "world0\<lparr>st := failed, outbox := [sent]\<rparr>"]
  by blast


section \<open>Restored image and original image\<close>





section \<open>Restoration: the request transition\<close>

text \<open>
  Claim C6, as amended. From a state that passes the precondition, the part of the
  restore handler before the \<open>await\<close> calls \<open>setIsLoading(true)\<close> first, \<open>setError(null)\<close>
  second and \<open>setRestoredImage(null)\<close> third, in one synchronous batch; the state the
  batch commits has \<open>isLoading\<close> true and \<open>error\<close> null, and the state the part after the
  \<open>await\<close> commits has \<open>isLoading\<close> false.
\<close>

theorem request_transition_commits:
  assumes "\<not> falsy (originalImage s)" and "\<not> falsy (originalMimeType s)"
    and "\<not> falsy (API_KEY e)"
  shows "fst (handleRestorePhoto_begin e s) =
           [SetIsLoading True, SetError None, SetRestoredImage None]
       \<and> commit (fst (handleRestorePhoto_begin e s)) s =
           s\<lparr>isLoading := True, error := None, restoredImage := None\<rparr>
       \<and> \<not> isLoading (commit (handleRestorePhoto_resume oc) t)"
  using begin_passes [OF assms] resume_clears_isLoading [of oc t] by simp

theorem request_transition_commits_witness:
  "\<not> falsy (originalImage failed) \<and> \<not> falsy (originalMimeType failed) \<and>
   \<not> falsy (API_KEY configured) \<and>
   commit (fst (handleRestorePhoto_begin configured failed)) failed = ready\<lparr>isLoading := True\<rparr>"
proof -
  from request_transition_commits [OF failed_passes ready_passes(3)]
  have "commit (fst (handleRestorePhoto_begin configured failed)) failed =
          failed\<lparr>isLoading := True, error := None, restoredImage := None\<rparr>"
    by blast
  then have "commit (fst (handleRestorePhoto_begin configured failed)) failed =
          ready\<lparr>isLoading := True\<rparr>"
    by (simp add: failed_def ready_def)
  with failed_passes ready_passes(3) show ?thesis by blast
qed

text \<open>
  The order of the calls is not the one of clearing \<open>error\<close> first: in the state the page
  reaches when a restoration has failed, the first call of the next request sets
  \<open>isLoading\<close> while \<open>error\<close> still holds the old message.
\<close>

theorem isLoading_set_before_error_cleared:
  "ui_run configured [SelectFile (Some grandma), FileRead grandma, ClickRestore,
       ServiceResult timeout] world0 =
     Some (world0\<lparr>st := failed, outbox := [sent]\<rparr>) \<and>
   fst (handleRestorePhoto_begin configured failed) =
     [SetIsLoading True, SetError None, SetRestoredImage None] \<and>
   trace (fst (handleRestorePhoto_begin configured failed)) failed =
     [failed\<lparr>isLoading := True\<rparr>, ready\<lparr>isLoading := True\<rparr>, ready\<lparr>isLoading := True\<rparr>] \<and>
   isLoading (failed\<lparr>isLoading := True\<rparr>) \<and>
   error (failed\<lparr>isLoading := True\<rparr>) = Some ''network timeout''"
proof -
  have "fst (handleRestorePhoto_begin configured failed) =
      [SetIsLoading True, SetError None, SetRestoredImage None]"
    using failed_passes ready_passes(3) by (rule begin_passes)
  then show ?thesis
    using ui_timed_out by (simp add: failed_def ready_def)
qed

end
